theory Spec2Isabelle
  imports Complex_Main "HOL-Library.Word" "HOL-Library.Multiset" "HOL-Library.AList"
begin

section \<open>Go values\<close>

text \<open>
  A \<open>float64\<close> is either a finite dyadic number \<open>m * 2 ^ e\<close> (\<open>Finite m e\<close>), an
  infinity or a NaN. The sign of zero is not kept: no function of the program
  distinguishes \<open>-0.0\<close> from \<open>0.0\<close>.
\<close>

datatype float64 = Finite int int | PosInf | NegInf | NaN

text \<open>
  The dynamic values an \<open>any\<close> (\<open>interface{}\<close>) can hold, as far as the program looks at
  them: the type switches of the helper package tell \<open>string\<close> and \<open>float64\<close> from
  everything else. \<open>AInt\<close> stands for a value of any of Go's integer types, \<open>AMap\<close> for a
  \<open>map[string]any\<close> (\<open>bson.M\<close>) given by its entries, \<open>AObjectID\<close> for an identifier
  generated by the database.
\<close>

datatype any = ANil | ABool bool | AInt int | AFloat64 float64 | AString string
  | AMap "(string \<times> any) list" | ASlice "any list" | AObjectID nat

text \<open>
  Error values. \<open>errors_New msg\<close> is \<open>errors.New(msg)\<close>; \<open>NumError s\<close> is the
  \<open>*strconv.NumError\<close> of a failed conversion of \<open>s\<close> (syntax or range);
  \<open>ErrNoDocuments\<close> is the driver's \<open>mongo.ErrNoDocuments\<close>; \<open>DriverError msg\<close> is any
  other error value produced by the database driver.
\<close>

datatype error = errors_New string | NumError string | ErrNoDocuments | DriverError string

text \<open>
  What the program takes from the Go implementation it runs on and does not fix itself:
  the width of \<open>int\<close>, the Unicode case tables behind \<open>strings.ToLower\<close>, and the value of
  a float-to-integer conversion whose result does not fit (the language leaves it
  implementation-dependent).
\<close>

record runtime =
  IntSize :: nat
  unicode_ToLower :: "string \<Rightarrow> string"
  float64_overflow :: "float64 \<Rightarrow> 64 word"

section \<open>Package helper\<close>

subsection \<open>Library functions used by \<open>ToInt\<close>\<close>

definition is_digit :: "char \<Rightarrow> bool" where
  "is_digit c = (48 \<le> (of_char c :: nat) \<and> (of_char c :: nat) \<le> 57)"

definition digits_value :: "string \<Rightarrow> int" where
  "digits_value ds = foldl (\<lambda>n ch. n * 10 + (int (of_char ch) - 48)) 0 ds"

text \<open>
  \<open>strconv.Atoi\<close> of the standard library: an optional sign \<open>+\<close> or \<open>-\<close>, then one or
  more decimal digits and nothing else; the value has to fit the type \<open>int\<close>. Every
  other string is an error.
\<close>

definition Atoi :: "runtime \<Rightarrow> string \<Rightarrow> error + int" where
  "Atoi rt s =
     (case s of
        [] \<Rightarrow> Inl (NumError s)
      | c # cs \<Rightarrow>
          (let body = (if c = CHR ''-'' \<or> c = CHR ''+'' then cs else s) in
           if body = [] \<or> \<not> list_all is_digit body then Inl (NumError s)
           else
             (let n = (if c = CHR ''-'' then - digits_value body else digits_value body) in
              if n < - (2 ^ (IntSize rt - 1)) \<or> 2 ^ (IntSize rt - 1) \<le> n
              then Inl (NumError s) else Inr n)))"

text \<open>The integer part of \<open>m * 2 ^ e\<close>, the fraction discarded.\<close>

definition float64_trunc :: "int \<Rightarrow> int \<Rightarrow> int" where
  "float64_trunc m e =
     (if 0 \<le> e then m * 2 ^ nat e else sgn m * (\<bar>m\<bar> div 2 ^ nat (- e)))"

definition fits_int64 :: "float64 \<Rightarrow> bool" where
  "fits_int64 f =
     (case f of
        Finite m e \<Rightarrow> - (2 ^ 63) \<le> float64_trunc m e \<and> float64_trunc m e < 2 ^ 63
      | _ \<Rightarrow> False)"

text \<open>
  The conversion \<open>int64(f)\<close> of a \<open>float64\<close>: the fraction is discarded; where the
  result is not an \<open>int64\<close> the value is the implementation's.
\<close>

definition int64_of_float64 :: "runtime \<Rightarrow> float64 \<Rightarrow> 64 word" where
  "int64_of_float64 rt f =
     (case f of
        Finite m e \<Rightarrow>
          if fits_int64 f then word_of_int (float64_trunc m e) else float64_overflow rt f
      | _ \<Rightarrow> float64_overflow rt f)"

subsection \<open>\<open>ToInt\<close>\<close>

fun ToInt :: "runtime \<Rightarrow> any \<Rightarrow> 64 word" where
  "ToInt rt (AString i) = (case Atoi rt i of Inl err \<Rightarrow> 0 | Inr res \<Rightarrow> word_of_int res)"
| "ToInt rt (AFloat64 i) = int64_of_float64 rt i"
| "ToInt rt _ = 0"

section \<open>Package mongodb: option translation\<close>

text \<open>
  \<open>strings.ToLower\<close>: a string of ASCII bytes is lowered byte by byte; any other string
  goes through the Unicode tables.
\<close>

definition ascii_lower :: "char \<Rightarrow> char" where
  "ascii_lower c =
     (if 65 \<le> (of_char c :: nat) \<and> (of_char c :: nat) \<le> 90
      then char_of ((of_char c :: nat) + 32) else c)"

definition isASCII :: "string \<Rightarrow> bool" where
  "isASCII s = list_all (\<lambda>c. (of_char c :: nat) < 128) s"

definition strings_ToLower :: "runtime \<Rightarrow> string \<Rightarrow> string" where
  "strings_ToLower rt s = (if isASCII s then map ascii_lower s else unicode_ToLower rt s)"

text \<open>
  The fields of the driver's \<open>options.FindOptions\<close> and \<open>options.FindOneOptions\<close> that
  the program sets. \<open>Sort\<close> is an \<open>interface{}\<close>, \<open>nil\<close> when unset; \<open>Limit\<close> and \<open>Skip\<close>
  are \<open>*int64\<close>. \<open>FindOneOptions\<close> has no \<open>Limit\<close>.
\<close>

record FindOptions =
  find_Sort :: any
  find_Limit :: "64 word option"
  find_Skip :: "64 word option"

record FindOneOptions =
  findone_Sort :: any
  findone_Skip :: "64 word option"

definition FindOptions_zero :: FindOptions where
  "FindOptions_zero = \<lparr>find_Sort = ANil, find_Limit = None, find_Skip = None\<rparr>"

definition FindOneOptions_zero :: FindOneOptions where
  "FindOneOptions_zero = \<lparr>findone_Sort = ANil, findone_Skip = None\<rparr>"

text \<open>One iteration of the loop of \<open>buildOptions\<close>, on the entry \<open>(k, v)\<close>.\<close>

definition buildOptions_step ::
  "runtime \<Rightarrow> string \<times> any \<Rightarrow> FindOptions \<times> FindOneOptions \<Rightarrow> FindOptions \<times> FindOneOptions"
where
  "buildOptions_step rt kv acc =
     (case kv of (k, v) \<Rightarrow> case acc of (findOpt, findoneOpt) \<Rightarrow>
        (let lk = strings_ToLower rt k in
         if lk = ''sort'' then
           (findOpt\<lparr>find_Sort := v\<rparr>, findoneOpt\<lparr>findone_Sort := v\<rparr>)
         else if lk = ''limit'' then
           (findOpt\<lparr>find_Limit := Some (ToInt rt v)\<rparr>, findoneOpt)
         else if lk = ''skip'' then
           (findOpt\<lparr>find_Skip := Some (ToInt rt v)\<rparr>,
            findoneOpt\<lparr>findone_Skip := Some (ToInt rt v)\<rparr>)
         else (findOpt, findoneOpt)))"

text \<open>
  A \<open>map[string]any\<close> is given by its entries in the order in which the \<open>range\<close> loop
  visits them; Go does not fix that order.
\<close>

definition buildOptions :: "runtime \<Rightarrow> (string \<times> any) list \<Rightarrow> FindOptions \<times> FindOneOptions" where
  "buildOptions rt opts = fold (buildOptions_step rt) opts (FindOptions_zero, FindOneOptions_zero)"

text \<open>
  The reading of the option mapping that the specification gives: the value stored under
  a name is the value of the entry whose key equals the name up to letter case (the one
  visited last, should several keys do so).
\<close>

definition option_value :: "runtime \<Rightarrow> string \<Rightarrow> (string \<times> any) list \<Rightarrow> any option" where
  "option_value rt name opts =
     (let es = filter (\<lambda>kv. strings_ToLower rt (fst kv) = name) opts
      in if es = [] then None else Some (snd (last es)))"

definition recognized :: "runtime \<Rightarrow> string \<times> any \<Rightarrow> bool" where
  "recognized rt kv =
     (strings_ToLower rt (fst kv) = ''sort'' \<or> strings_ToLower rt (fst kv) = ''limit''
      \<or> strings_ToLower rt (fst kv) = ''skip'')"

section \<open>Contexts\<close>

text \<open>
  A \<open>context.Context\<close> is a reference to a shared object: \<open>cancel\<close> changes the object
  that every holder of the context sees. The objects live in a store (a list, the
  reference being the position). Times are in nanoseconds.
\<close>

datatype ctx_error = Canceled | DeadlineExceeded

record ctx_state =
  ctx_deadline :: "nat option"
  ctx_err :: "ctx_error option"

type_synonym ctx_ref = nat

type_synonym contexts = "ctx_state list"

definition Second :: nat where
  "Second = 1000000000"

text \<open>
  \<open>context.WithTimeout(context.Background(), d)\<close> at time \<open>now\<close>: a new context with the
  deadline \<open>now + d\<close>, not yet done.
\<close>

definition WithTimeout :: "nat \<Rightarrow> nat \<Rightarrow> contexts \<Rightarrow> ctx_ref \<times> contexts" where
  "WithTimeout now d cs =
     (length cs, cs @ [\<lparr>ctx_deadline = Some (now + d), ctx_err = None\<rparr>])"

text \<open>The \<open>cancel\<close> function returned with the context \<open>c\<close>: the first call ends it.\<close>

definition cancel :: "ctx_ref \<Rightarrow> contexts \<Rightarrow> contexts" where
  "cancel c cs =
     (if c < length cs \<and> ctx_err (cs ! c) = None
      then cs[c := (cs ! c)\<lparr>ctx_err := Some Canceled\<rparr>] else cs)"

section \<open>The database driver, as the program uses it\<close>

datatype client = Client nat

record database =
  db_client :: client
  db_name :: string

record collection =
  col_database :: database
  col_name :: string

datatype cursor = Cursor nat

datatype readpref = Primary

text \<open>
  What the caller hands in as \<open>result any\<close>: a pointer to a slice, a pointer to a single
  document, or something that is no pointer.
\<close>

datatype target = PtrToSlice | PtrToDocument | NotAPointer

record InsertOneResult =
  InsertedID :: any

record InsertManyResult =
  InsertedIDs :: "any list"

record UpdateResult =
  MatchedCount :: int
  ModifiedCount :: int
  UpsertedCount :: int
  UpsertedID :: any

record DeleteResult =
  DeletedCount :: int

record UpdateOptions =
  upd_Upsert :: "bool option"

text \<open>A \<open>*mongo.SingleResult\<close>: the error of the lookup, if any, and the raw document.\<close>

datatype single_result = SingleResult "error option" any

text \<open>
  The driver is third-party code. Its operations are parameters of the model, each a
  function on the state \<open>'s\<close> of the driver and the database behind it. A call that
  returns \<open>(result, err)\<close> and whose result the program hands on without looking at it
  is a pair; \<open>Connect\<close>, \<open>Find\<close>, \<open>All\<close> and \<open>Decode\<close>, where the program uses the result only
  when there is no error, return a sum.
\<close>

record 's driver =
  mongo_Connect :: "ctx_ref \<Rightarrow> string \<Rightarrow> 's \<Rightarrow> (error + client) \<times> 's"
  Client_Ping :: "client \<Rightarrow> ctx_ref \<Rightarrow> readpref \<Rightarrow> 's \<Rightarrow> error option \<times> 's"
  Collection_InsertOne ::
    "collection \<Rightarrow> ctx_ref \<Rightarrow> any \<Rightarrow> 's \<Rightarrow> (InsertOneResult option \<times> error option) \<times> 's"
  Collection_InsertMany ::
    "collection \<Rightarrow> ctx_ref \<Rightarrow> any list \<Rightarrow> 's \<Rightarrow> (InsertManyResult option \<times> error option) \<times> 's"
  Collection_UpdateOne ::
    "collection \<Rightarrow> ctx_ref \<Rightarrow> any \<Rightarrow> any \<Rightarrow> UpdateOptions \<Rightarrow> 's
       \<Rightarrow> (UpdateResult option \<times> error option) \<times> 's"
  Collection_FindOne ::
    "collection \<Rightarrow> ctx_ref \<Rightarrow> (string \<times> any) list \<Rightarrow> FindOneOptions \<Rightarrow> 's \<Rightarrow> single_result \<times> 's"
  SingleResult_Decode :: "single_result \<Rightarrow> target \<Rightarrow> error + any"
  Collection_Find ::
    "collection \<Rightarrow> ctx_ref \<Rightarrow> (string \<times> any) list \<Rightarrow> FindOptions \<Rightarrow> 's \<Rightarrow> (error + cursor) \<times> 's"
  Cursor_All :: "cursor \<Rightarrow> ctx_ref \<Rightarrow> target \<Rightarrow> 's \<Rightarrow> (error + any) \<times> 's"
  Cursor_Close :: "cursor \<Rightarrow> ctx_ref \<Rightarrow> 's \<Rightarrow> error option \<times> 's"
  Collection_DeleteMany ::
    "collection \<Rightarrow> ctx_ref \<Rightarrow> (string \<times> any) list \<Rightarrow> 's \<Rightarrow> (DeleteResult option \<times> error option) \<times> 's"

definition Database :: "client \<Rightarrow> string \<Rightarrow> database" where
  "Database cl dbName = \<lparr>db_client = cl, db_name = dbName\<rparr>"

definition Collection :: "database \<Rightarrow> string \<Rightarrow> collection" where
  "Collection db collectionName = \<lparr>col_database = db, col_name = collectionName\<rparr>"

section \<open>Package mongodb: the storage\<close>

record MongodbStorage =
  ctx :: ctx_ref
  client :: client
  database :: database

text \<open>
  \<open>NewMongo\<close>, called at time \<open>now\<close>. The deferred \<open>cancel()\<close> runs on both ways out of
  the function, after the result has been built.
\<close>

definition NewMongo ::
  "'s driver \<Rightarrow> nat \<Rightarrow> string \<Rightarrow> string \<Rightarrow> contexts \<times> 's \<Rightarrow> (error + MongodbStorage) \<times> contexts \<times> 's"
where
  "NewMongo drv now uri dbName w =
     (case w of (cs, s) \<Rightarrow>
        (case WithTimeout now (30 * Second) cs of (c, cs1) \<Rightarrow>
           (case mongo_Connect drv c uri s of
              (Inl err, s1) \<Rightarrow> (Inl err, cancel c cs1, s1)
            | (Inr cl, s1) \<Rightarrow>
                (Inr \<lparr>ctx = c, client = cl, database = Database cl dbName\<rparr>, cancel c cs1, s1))))"

definition HealthCheck :: "'s driver \<Rightarrow> MongodbStorage \<Rightarrow> 's \<Rightarrow> error option \<times> 's" where
  "HealthCheck drv m s = Client_Ping drv (client m) (ctx m) Primary s"

definition InsertOne ::
  "'s driver \<Rightarrow> MongodbStorage \<Rightarrow> string \<Rightarrow> any \<Rightarrow> 's \<Rightarrow> (InsertOneResult option \<times> error option) \<times> 's"
where
  "InsertOne drv m collectionName data s =
     (let col = Collection (database m) collectionName
      in Collection_InsertOne drv col (ctx m) data s)"

definition InsertMany ::
  "'s driver \<Rightarrow> MongodbStorage \<Rightarrow> string \<Rightarrow> any list \<Rightarrow> 's
     \<Rightarrow> (InsertManyResult option \<times> error option) \<times> 's"
where
  "InsertMany drv m collectionName datas s =
     (let col = Collection (database m) collectionName
      in Collection_InsertMany drv col (ctx m) datas s)"

definition Upsert ::
  "'s driver \<Rightarrow> MongodbStorage \<Rightarrow> string \<Rightarrow> any \<Rightarrow> any \<Rightarrow> 's
     \<Rightarrow> (UpdateResult option \<times> error option) \<times> 's"
where
  "Upsert drv m collectionName flt data s =
     (let col = Collection (database m) collectionName;
          upsert = True
      in Collection_UpdateOne drv col (ctx m) flt (AMap [(''$set'', data)])
           \<lparr>upd_Upsert = Some upsert\<rparr> s)"

text \<open>
  \<open>FindOne\<close> and \<open>FindMany\<close> return an error or, with no error, what has been written
  through the caller's \<open>result\<close>. In \<open>FindMany\<close> the cursor of a \<open>Find\<close> that returned no
  error is not \<open>nil\<close>, so the test \<open>cursor != nil\<close> before \<open>Close\<close> holds whenever it is
  reached. The value that \<open>Close\<close> returns is dropped.
\<close>

definition FindOne ::
  "runtime \<Rightarrow> 's driver \<Rightarrow> MongodbStorage \<Rightarrow> string \<Rightarrow> (string \<times> any) list \<Rightarrow> target
     \<Rightarrow> (string \<times> any) list \<Rightarrow> 's \<Rightarrow> (error + any) \<times> 's"
where
  "FindOne rt drv m collectionName flt result opts s =
     (let col = Collection (database m) collectionName;
          findOneOpt = snd (buildOptions rt opts)
      in case Collection_FindOne drv col (ctx m) flt findOneOpt s of
           (sr, s1) \<Rightarrow>
             (case SingleResult_Decode drv sr result of
                Inl err \<Rightarrow> (Inl err, s1)
              | Inr v \<Rightarrow> (Inr v, s1)))"

definition FindMany ::
  "runtime \<Rightarrow> 's driver \<Rightarrow> MongodbStorage \<Rightarrow> string \<Rightarrow> (string \<times> any) list \<Rightarrow> target
     \<Rightarrow> (string \<times> any) list \<Rightarrow> 's \<Rightarrow> (error + any) \<times> 's"
where
  "FindMany rt drv m collectionName flt result opts s =
     (let col = Collection (database m) collectionName;
          findOpt = fst (buildOptions rt opts)
      in case Collection_Find drv col (ctx m) flt findOpt s of
           (Inl err, s1) \<Rightarrow> (Inl err, s1)
         | (Inr cursor, s1) \<Rightarrow>
             (case Cursor_All drv cursor (ctx m) result s1 of
                (Inl err, s2) \<Rightarrow> (Inl err, s2)
              | (Inr v, s2) \<Rightarrow>
                  (case Cursor_Close drv cursor (ctx m) s2 of
                     (closeErr, s3) \<Rightarrow> (Inr v, s3))))"

definition Delete ::
  "'s driver \<Rightarrow> MongodbStorage \<Rightarrow> string \<Rightarrow> (string \<times> any) list \<Rightarrow> 's \<Rightarrow> error option \<times> 's"
where
  "Delete drv m collectionName flt s =
     (if length flt = 0 then (Some (errors_New ''filter cannot be empty''), s)
      else
        (let col = Collection (database m) collectionName
         in case Collection_DeleteMany drv col (ctx m) flt s of
              ((res, err), s1) \<Rightarrow> (err, s1)))"

section \<open>Observing the calls\<close>

text \<open>
  The calls that reach the driver, in order. \<open>recording drv\<close> behaves as \<open>drv\<close> does and
  keeps the list of the calls made so far beside the state of \<open>drv\<close>. \<open>Decode\<close> works on
  a result already fetched and is no call of its own.
\<close>

datatype request =
    ReqConnect ctx_ref string
  | ReqPing client ctx_ref readpref
  | ReqInsertOne collection ctx_ref any
  | ReqInsertMany collection ctx_ref "any list"
  | ReqUpdateOne collection ctx_ref any any UpdateOptions
  | ReqFindOne collection ctx_ref "(string \<times> any) list" FindOneOptions
  | ReqFind collection ctx_ref "(string \<times> any) list" FindOptions
  | ReqAll cursor ctx_ref target
  | ReqClose cursor ctx_ref
  | ReqDeleteMany collection ctx_ref "(string \<times> any) list"

definition logged :: "request \<Rightarrow> ('s \<Rightarrow> 'r \<times> 's) \<Rightarrow> 's \<times> request list \<Rightarrow> 'r \<times> 's \<times> request list" where
  "logged rq f w = (case w of (s, calls) \<Rightarrow> (case f s of (r, s') \<Rightarrow> (r, s', calls @ [rq])))"

definition recording :: "'s driver \<Rightarrow> ('s \<times> request list) driver" where
  "recording drv =
     \<lparr>mongo_Connect = (\<lambda>c uri. logged (ReqConnect c uri) (mongo_Connect drv c uri)),
      Client_Ping = (\<lambda>cl c rp. logged (ReqPing cl c rp) (Client_Ping drv cl c rp)),
      Collection_InsertOne = (\<lambda>col c d. logged (ReqInsertOne col c d) (Collection_InsertOne drv col c d)),
      Collection_InsertMany =
        (\<lambda>col c ds. logged (ReqInsertMany col c ds) (Collection_InsertMany drv col c ds)),
      Collection_UpdateOne =
        (\<lambda>col c f u uo. logged (ReqUpdateOne col c f u uo) (Collection_UpdateOne drv col c f u uo)),
      Collection_FindOne =
        (\<lambda>col c f fo. logged (ReqFindOne col c f fo) (Collection_FindOne drv col c f fo)),
      SingleResult_Decode = SingleResult_Decode drv,
      Collection_Find = (\<lambda>col c f fo. logged (ReqFind col c f fo) (Collection_Find drv col c f fo)),
      Cursor_All = (\<lambda>cur c t. logged (ReqAll cur c t) (Cursor_All drv cur c t)),
      Cursor_Close = (\<lambda>cur c. logged (ReqClose cur c) (Cursor_Close drv cur c)),
      Collection_DeleteMany =
        (\<lambda>col c f. logged (ReqDeleteMany col c f) (Collection_DeleteMany drv col c f))\<rparr>"

section \<open>A reference database\<close>

text \<open>
  Modelled from the spec: the database client collaborator (the third-party driver and
  the database behind it), which the repository uses and does not contain. The model
  keeps, for every collection, the list of its documents in the order of insertion. A
  filter matches a document when every field of the filter is a field of the document
  with the same value; query options are not interpreted. The operations follow the
  specification's description of the facade's operations: insert-one adds one document
  and returns a generated identifier, update-one with \<open>$set\<close> replaces the given fields
  of the first matching document and, with the upsert flag and no match, inserts a
  document that combines the fields of the filter with the given ones, delete-many
  removes every matching document, find-one fails with \<open>ErrNoDocuments\<close> when nothing
  matches, and a cursor holds the documents of a query until it is drained or closed.
\<close>

record store =
  store_docs :: "collection \<Rightarrow> any list"
  store_cursors :: "nat \<Rightarrow> any list option"
  store_next :: nat

definition matches :: "(string \<times> any) list \<Rightarrow> any \<Rightarrow> bool" where
  "matches flt d =
     (case d of
        AMap fs \<Rightarrow> list_all (\<lambda>kv. map_of fs (fst kv) = Some (snd kv)) flt
      | _ \<Rightarrow> False)"

definition set_fields :: "(string \<times> any) list \<Rightarrow> (string \<times> any) list \<Rightarrow> (string \<times> any) list" where
  "set_fields fs d = fold (\<lambda>kv. AList.update (fst kv) (snd kv)) fs d"

definition apply_set :: "(string \<times> any) list \<Rightarrow> any \<Rightarrow> any" where
  "apply_set fs d = (case d of AMap old \<Rightarrow> AMap (set_fields fs old) | _ \<Rightarrow> d)"

fun update_first :: "('a \<Rightarrow> bool) \<Rightarrow> ('a \<Rightarrow> 'a) \<Rightarrow> 'a list \<Rightarrow> 'a list" where
  "update_first P f [] = []"
| "update_first P f (x # xs) = (if P x then f x # xs else x # update_first P f xs)"

definition is_document :: "any \<Rightarrow> bool" where
  "is_document d = (case d of AMap fs \<Rightarrow> True | _ \<Rightarrow> False)"

definition store_Connect :: "ctx_ref \<Rightarrow> string \<Rightarrow> store \<Rightarrow> (error + client) \<times> store" where
  "store_Connect c uri st = (Inr (Client 0), st)"

definition store_Ping :: "client \<Rightarrow> ctx_ref \<Rightarrow> readpref \<Rightarrow> store \<Rightarrow> error option \<times> store" where
  "store_Ping cl c rp st = (None, st)"

definition store_InsertOne ::
  "collection \<Rightarrow> ctx_ref \<Rightarrow> any \<Rightarrow> store \<Rightarrow> (InsertOneResult option \<times> error option) \<times> store"
where
  "store_InsertOne col c d st =
     (if is_document d then
        ((Some \<lparr>InsertedID = AObjectID (store_next st)\<rparr>, None),
         st\<lparr>store_docs := (store_docs st)(col := store_docs st col @ [d]),
            store_next := Suc (store_next st)\<rparr>)
      else ((None, Some (DriverError ''not a document'')), st))"

definition store_InsertMany ::
  "collection \<Rightarrow> ctx_ref \<Rightarrow> any list \<Rightarrow> store \<Rightarrow> (InsertManyResult option \<times> error option) \<times> store"
where
  "store_InsertMany col c ds st =
     (if ds \<noteq> [] \<and> list_all is_document ds then
        ((Some \<lparr>InsertedIDs = map AObjectID [store_next st ..< store_next st + length ds]\<rparr>, None),
         st\<lparr>store_docs := (store_docs st)(col := store_docs st col @ ds),
            store_next := store_next st + length ds\<rparr>)
      else ((None, Some (DriverError ''not a list of documents'')), st))"

definition store_UpdateOne ::
  "collection \<Rightarrow> ctx_ref \<Rightarrow> any \<Rightarrow> any \<Rightarrow> UpdateOptions \<Rightarrow> store
     \<Rightarrow> (UpdateResult option \<times> error option) \<times> store"
where
  "store_UpdateOne col c flt update uo st =
     (case flt of
        AMap fl \<Rightarrow>
          (case update of
             AMap [(opr, AMap fs)] \<Rightarrow>
               if opr = ''$set'' then
                 (let ds = store_docs st col in
                  if list_ex (matches fl) ds then
                    ((Some \<lparr>MatchedCount = 1,
                            ModifiedCount =
                              (if update_first (matches fl) (apply_set fs) ds = ds then 0 else 1),
                            UpsertedCount = 0, UpsertedID = ANil\<rparr>, None),
                     st\<lparr>store_docs :=
                          (store_docs st)(col := update_first (matches fl) (apply_set fs) ds)\<rparr>)
                  else if upd_Upsert uo = Some True then
                    ((Some \<lparr>MatchedCount = 0, ModifiedCount = 0, UpsertedCount = 1,
                            UpsertedID = AObjectID (store_next st)\<rparr>, None),
                     st\<lparr>store_docs := (store_docs st)(col := ds @ [AMap (set_fields fs fl)]),
                        store_next := Suc (store_next st)\<rparr>)
                  else
                    ((Some \<lparr>MatchedCount = 0, ModifiedCount = 0, UpsertedCount = 0,
                            UpsertedID = ANil\<rparr>, None), st))
               else ((None, Some (DriverError ''unsupported update'')), st)
           | _ \<Rightarrow> ((None, Some (DriverError ''unsupported update'')), st))
      | _ \<Rightarrow> ((None, Some (DriverError ''filter is not a document'')), st))"

definition store_FindOne ::
  "collection \<Rightarrow> ctx_ref \<Rightarrow> (string \<times> any) list \<Rightarrow> FindOneOptions \<Rightarrow> store \<Rightarrow> single_result \<times> store"
where
  "store_FindOne col c flt fo st =
     (case List.find (matches flt) (store_docs st col) of
        None \<Rightarrow> (SingleResult (Some ErrNoDocuments) ANil, st)
      | Some d \<Rightarrow> (SingleResult None d, st))"

definition store_Decode :: "single_result \<Rightarrow> target \<Rightarrow> error + any" where
  "store_Decode sr t =
     (case sr of
        SingleResult (Some err) d \<Rightarrow> Inl err
      | SingleResult None d \<Rightarrow>
          if t = PtrToDocument then Inr d else Inl (DriverError ''cannot decode''))"

definition store_Find ::
  "collection \<Rightarrow> ctx_ref \<Rightarrow> (string \<times> any) list \<Rightarrow> FindOptions \<Rightarrow> store \<Rightarrow> (error + cursor) \<times> store"
where
  "store_Find col c flt fo st =
     (Inr (Cursor (store_next st)),
      st\<lparr>store_cursors :=
           (store_cursors st)(store_next st := Some (filter (matches flt) (store_docs st col))),
         store_next := Suc (store_next st)\<rparr>)"

text \<open>
  Draining a cursor into a slice closes it; a \<open>result\<close> that is no pointer to a slice is
  refused before the cursor is touched.
\<close>

definition store_All :: "cursor \<Rightarrow> ctx_ref \<Rightarrow> target \<Rightarrow> store \<Rightarrow> (error + any) \<times> store" where
  "store_All cur c t st =
     (case cur of Cursor n \<Rightarrow>
        if t \<noteq> PtrToSlice then (Inl (DriverError ''results argument must be a pointer to a slice''), st)
        else
          (case store_cursors st n of
             None \<Rightarrow> (Inr (ASlice []), st)
           | Some ds \<Rightarrow> (Inr (ASlice ds), st\<lparr>store_cursors := (store_cursors st)(n := None)\<rparr>)))"

definition store_Close :: "cursor \<Rightarrow> ctx_ref \<Rightarrow> store \<Rightarrow> error option \<times> store" where
  "store_Close cur c st =
     (case cur of Cursor n \<Rightarrow> (None, st\<lparr>store_cursors := (store_cursors st)(n := None)\<rparr>))"

definition store_DeleteMany ::
  "collection \<Rightarrow> ctx_ref \<Rightarrow> (string \<times> any) list \<Rightarrow> store \<Rightarrow> (DeleteResult option \<times> error option) \<times> store"
where
  "store_DeleteMany col c flt st =
     ((Some \<lparr>DeletedCount = int (length (filter (matches flt) (store_docs st col)))\<rparr>, None),
      st\<lparr>store_docs :=
           (store_docs st)(col := filter (\<lambda>d. \<not> matches flt d) (store_docs st col))\<rparr>)"

definition store_driver :: "store driver" where
  "store_driver =
     \<lparr>mongo_Connect = store_Connect,
      Client_Ping = store_Ping,
      Collection_InsertOne = store_InsertOne,
      Collection_InsertMany = store_InsertMany,
      Collection_UpdateOne = store_UpdateOne,
      Collection_FindOne = store_FindOne,
      SingleResult_Decode = store_Decode,
      Collection_Find = store_Find,
      Cursor_All = store_All,
      Cursor_Close = store_Close,
      Collection_DeleteMany = store_DeleteMany\<rparr>"



section \<open>Values for the examples\<close>

text \<open>
  A 64-bit implementation on which a conversion out of range gives the least \<open>int64\<close>.
  The Unicode tables are left out: the keys of the examples are ASCII.
\<close>

definition example_runtime :: runtime where
  "example_runtime =
     \<lparr>IntSize = 64, unicode_ToLower = (\<lambda>s. s), float64_overflow = (\<lambda>f. - (2 ^ 63))\<rparr>"

definition empty_store :: store where
  "empty_store = \<lparr>store_docs = (\<lambda>col. []), store_cursors = (\<lambda>n. None), store_next = 0\<rparr>"

definition example_storage :: MongodbStorage where
  "example_storage = \<lparr>ctx = 0, client = Client 0, database = Database (Client 0) ''app''\<rparr>"

definition users :: collection where
  "users = Collection (Database (Client 0) ''app'') ''users''"

definition ann :: any where
  "ann = AMap [(''name'', AString ''ann''), (''age'', AInt 30)]"

definition bob :: any where
  "bob = AMap [(''name'', AString ''bob''), (''age'', AInt 41)]"

definition users_store :: store where
  "users_store = empty_store\<lparr>store_docs := (store_docs empty_store)(users := [ann, bob])\<rparr>"

text \<open>The \<open>float64\<close> nearest to 3.9, and 2 to the power 63.\<close>

definition float_3_9 :: float64 where
  "float_3_9 = Finite 8782019273372467 (- 51)"

definition float_2_63 :: float64 where
  "float_2_63 = Finite 1 63"

definition example_opts :: "(string \<times> any) list" where
  "example_opts =
     [(''SORT'', AMap [(''age'', AInt 1)]), (''Limit'', AString ''7''),
      (''skip'', AFloat64 float_3_9), (''page'', AInt 2)]"

section \<open>Decimal numerals\<close>

text \<open>
  What the specification calls a base-10 integer: the digits of a natural number, most
  significant first, and the numeral of an integer as \<open>strconv.Itoa\<close> prints it.
\<close>

fun nat_digits :: "nat \<Rightarrow> string" where
  "nat_digits n =
     (if n < 10 then [char_of (48 + n)]
      else nat_digits (n div 10) @ [char_of (48 + n mod 10)])"

declare nat_digits.simps [simp del]

definition Itoa :: "int \<Rightarrow> string" where
  "Itoa n = (if n < 0 then CHR ''-'' # nat_digits (nat (- n)) else nat_digits (nat n))"

text \<open>
  The integer written by a string that is an optional sign followed by decimal digits;
  \<open>None\<close> for every other string.
\<close>

definition decimal_numeral :: "string \<Rightarrow> int option" where
  "decimal_numeral s =
     (case s of
        [] \<Rightarrow> None
      | c # cs \<Rightarrow>
          if c = CHR ''-'' then
            (if cs \<noteq> [] \<and> list_all is_digit cs then Some (- digits_value cs) else None)
          else if c = CHR ''+'' then
            (if cs \<noteq> [] \<and> list_all is_digit cs then Some (digits_value cs) else None)
          else if list_all is_digit s then Some (digits_value s)
          else None)"

definition is_string :: "any \<Rightarrow> bool" where
  "is_string v = (case v of AString s \<Rightarrow> True | _ \<Rightarrow> False)"

definition is_float64 :: "any \<Rightarrow> bool" where
  "is_float64 v = (case v of AFloat64 f \<Rightarrow> True | _ \<Rightarrow> False)"

definition by_name :: "string \<Rightarrow> (string \<times> any) list" where
  "by_name n = [(''name'', AString n)]"


section \<open>Option translation\<close>

lemma buildOptions_Nil: "buildOptions rt [] = (FindOptions_zero, FindOneOptions_zero)"
  by (simp add: buildOptions_def)

lemma buildOptions_snoc:
  "buildOptions rt (opts @ [kv]) = buildOptions_step rt kv (buildOptions rt opts)"
  by (simp add: buildOptions_def)

lemma option_value_Nil: "option_value rt name [] = None"
  by (simp add: option_value_def)

lemma option_value_snoc:
  "option_value rt name (opts @ [kv]) =
     (if strings_ToLower rt (fst kv) = name then Some (snd kv) else option_value rt name opts)"
  by (simp add: option_value_def Let_def)

lemma names_distinct: "''sort'' \<noteq> ''limit''" "''sort'' \<noteq> ''skip''" "''limit'' \<noteq> ''skip''"
  by simp_all

lemma find_Sort_buildOptions:
  "find_Sort (fst (buildOptions rt opts)) =
     (case option_value rt ''sort'' opts of None \<Rightarrow> ANil | Some v \<Rightarrow> v)"
proof (induction opts rule: rev_induct)
  case Nil
  show ?case by (simp add: buildOptions_Nil option_value_Nil FindOptions_zero_def)
next
  case (snoc kv opts)
  obtain k v where kv: "kv = (k, v)" by (cases kv)
  obtain a b where ab: "buildOptions rt opts = (a, b)" by (cases "buildOptions rt opts")
  from snoc ab show ?case
    by (simp add: buildOptions_snoc option_value_snoc kv buildOptions_step_def Let_def)
qed

lemma findone_Sort_buildOptions:
  "findone_Sort (snd (buildOptions rt opts)) =
     (case option_value rt ''sort'' opts of None \<Rightarrow> ANil | Some v \<Rightarrow> v)"
proof (induction opts rule: rev_induct)
  case Nil
  show ?case by (simp add: buildOptions_Nil option_value_Nil FindOneOptions_zero_def)
next
  case (snoc kv opts)
  obtain k v where kv: "kv = (k, v)" by (cases kv)
  obtain a b where ab: "buildOptions rt opts = (a, b)" by (cases "buildOptions rt opts")
  from snoc ab show ?case
    by (simp add: buildOptions_snoc option_value_snoc kv buildOptions_step_def Let_def)
qed

lemma find_Skip_buildOptions:
  "find_Skip (fst (buildOptions rt opts)) = map_option (ToInt rt) (option_value rt ''skip'' opts)"
proof (induction opts rule: rev_induct)
  case Nil
  show ?case by (simp add: buildOptions_Nil option_value_Nil FindOptions_zero_def)
next
  case (snoc kv opts)
  obtain k v where kv: "kv = (k, v)" by (cases kv)
  obtain a b where ab: "buildOptions rt opts = (a, b)" by (cases "buildOptions rt opts")
  from snoc ab show ?case
    by (simp add: buildOptions_snoc option_value_snoc kv buildOptions_step_def Let_def)
qed

lemma findone_Skip_buildOptions:
  "findone_Skip (snd (buildOptions rt opts)) = map_option (ToInt rt) (option_value rt ''skip'' opts)"
proof (induction opts rule: rev_induct)
  case Nil
  show ?case by (simp add: buildOptions_Nil option_value_Nil FindOneOptions_zero_def)
next
  case (snoc kv opts)
  obtain k v where kv: "kv = (k, v)" by (cases kv)
  obtain a b where ab: "buildOptions rt opts = (a, b)" by (cases "buildOptions rt opts")
  from snoc ab show ?case
    by (simp add: buildOptions_snoc option_value_snoc kv buildOptions_step_def Let_def)
qed

lemma find_Limit_buildOptions:
  "find_Limit (fst (buildOptions rt opts)) = map_option (ToInt rt) (option_value rt ''limit'' opts)"
proof (induction opts rule: rev_induct)
  case Nil
  show ?case by (simp add: buildOptions_Nil option_value_Nil FindOptions_zero_def)
next
  case (snoc kv opts)
  obtain k v where kv: "kv = (k, v)" by (cases kv)
  obtain a b where ab: "buildOptions rt opts = (a, b)" by (cases "buildOptions rt opts")
  from snoc ab show ?case
    by (simp add: buildOptions_snoc option_value_snoc kv buildOptions_step_def Let_def)
qed

lemma option_value_filter:
  "(\<And>kv. strings_ToLower rt (fst kv) = name \<Longrightarrow> P kv) \<Longrightarrow>
   option_value rt name (filter P opts) = option_value rt name opts"
proof -
  assume h: "\<And>kv. strings_ToLower rt (fst kv) = name \<Longrightarrow> P kv"
  have "filter (\<lambda>kv. strings_ToLower rt (fst kv) = name) (filter P opts) =
        filter (\<lambda>kv. strings_ToLower rt (fst kv) = name) opts"
    using h by (auto intro: filter_cong)
  then show ?thesis by (simp add: option_value_def)
qed

lemma FindOptions_eqI:
  "find_Sort a = find_Sort b \<Longrightarrow> find_Limit a = find_Limit b \<Longrightarrow> find_Skip a = find_Skip b \<Longrightarrow>
   a = (b :: FindOptions)"
  by simp

lemma FindOneOptions_eqI:
  "findone_Sort a = findone_Sort b \<Longrightarrow> findone_Skip a = findone_Skip b \<Longrightarrow> a = (b :: FindOneOptions)"
  by simp

lemma buildOptions_eqI:
  assumes "option_value rt ''sort'' xs = option_value rt ''sort'' ys"
    and "option_value rt ''skip'' xs = option_value rt ''skip'' ys"
    and "option_value rt ''limit'' xs = option_value rt ''limit'' ys"
  shows "buildOptions rt xs = buildOptions rt ys"
proof (rule prod_eqI)
  show "fst (buildOptions rt xs) = fst (buildOptions rt ys)"
    by (rule FindOptions_eqI)
       (simp_all add: find_Sort_buildOptions find_Skip_buildOptions find_Limit_buildOptions assms)
  show "snd (buildOptions rt xs) = snd (buildOptions rt ys)"
    by (rule FindOneOptions_eqI)
       (simp_all add: findone_Sort_buildOptions findone_Skip_buildOptions assms)
qed

lemma findone_eqI:
  assumes "option_value rt ''sort'' xs = option_value rt ''sort'' ys"
    and "option_value rt ''skip'' xs = option_value rt ''skip'' ys"
  shows "snd (buildOptions rt xs) = snd (buildOptions rt ys)"
  by (rule FindOneOptions_eqI)
     (simp_all add: findone_Sort_buildOptions findone_Skip_buildOptions assms)

text \<open>
  Claim C2. For every option mapping, whatever the order in which its entries are
  visited: the sort of both option structs is the value stored under a key that equals
  \<open>sort\<close> up to letter case (\<open>nil\<close> without such a key), the same in the multi-document
  and in the single-document form; the skip of both is \<open>ToInt\<close> of the value under
  \<open>skip\<close>, the same in both; the limit of the multi-document form is \<open>ToInt\<close> of the
  value under \<open>limit\<close>; the single-document form is what it would be without the
  \<open>limit\<close> entries; and entries with any other key change nothing.
\<close>

theorem buildOptions_translation:
  "find_Sort (fst (buildOptions rt opts)) =
     (case option_value rt ''sort'' opts of None \<Rightarrow> ANil | Some v \<Rightarrow> v)
   \<and> findone_Sort (snd (buildOptions rt opts)) = find_Sort (fst (buildOptions rt opts))
   \<and> find_Skip (fst (buildOptions rt opts)) = map_option (ToInt rt) (option_value rt ''skip'' opts)
   \<and> findone_Skip (snd (buildOptions rt opts)) = find_Skip (fst (buildOptions rt opts))
   \<and> find_Limit (fst (buildOptions rt opts)) = map_option (ToInt rt) (option_value rt ''limit'' opts)
   \<and> snd (buildOptions rt (filter (\<lambda>kv. strings_ToLower rt (fst kv) \<noteq> ''limit'') opts))
       = snd (buildOptions rt opts)
   \<and> buildOptions rt (filter (recognized rt) opts) = buildOptions rt opts"
proof (intro conjI)
  show "snd (buildOptions rt (filter (\<lambda>kv. strings_ToLower rt (fst kv) \<noteq> ''limit'') opts))
       = snd (buildOptions rt opts)"
    by (rule findone_eqI) (simp_all add: option_value_filter)
  show "buildOptions rt (filter (recognized rt) opts) = buildOptions rt opts"
    by (rule buildOptions_eqI) (simp_all add: option_value_filter recognized_def)
qed (simp_all add: find_Sort_buildOptions findone_Sort_buildOptions find_Skip_buildOptions
      findone_Skip_buildOptions find_Limit_buildOptions)

lemma buildOptions_step_commute:
  assumes "strings_ToLower rt (fst x) \<noteq> strings_ToLower rt (fst y)"
  shows "buildOptions_step rt x (buildOptions_step rt y acc) =
         buildOptions_step rt y (buildOptions_step rt x acc)"
proof -
  obtain k v where x: "x = (k, v)" by (cases x)
  obtain k' v' where y: "y = (k', v')" by (cases y)
  obtain a b where acc: "acc = (a, b)" by (cases acc)
  from assms show ?thesis
    by (auto simp: x y acc buildOptions_step_def Let_def)
qed

text \<open>
  Claim C10. When no two keys of the option mapping have the same lower-case form, the
  two option structs do not depend on the order in which the entries are visited: any
  two orders of the same entries give the same result.
\<close>

theorem buildOptions_order_independent:
  assumes "distinct (map (\<lambda>kv. strings_ToLower rt (fst kv)) xs)" and "mset ys = mset xs"
  shows "buildOptions rt ys = buildOptions rt xs"
proof -
  have comm: "buildOptions_step rt x \<circ> buildOptions_step rt y =
              buildOptions_step rt y \<circ> buildOptions_step rt x"
    if "x \<in> set xs" "y \<in> set xs" for x y
  proof (cases "x = y")
    case True
    then show ?thesis by simp
  next
    case False
    with that assms(1) have "strings_ToLower rt (fst x) \<noteq> strings_ToLower rt (fst y)"
      by (auto simp: distinct_map inj_on_def)
    then show ?thesis
      by (auto simp: fun_eq_iff intro: buildOptions_step_commute)
  qed
  have "fold (buildOptions_step rt) xs = fold (buildOptions_step rt) ys"
    by (rule fold_multiset_equiv) (use comm assms(2) in auto)
  then show ?thesis by (simp add: buildOptions_def)
qed


lemma lower_examples:
  "strings_ToLower rt ''SORT'' = ''sort''" "strings_ToLower rt ''Limit'' = ''limit''"
  "strings_ToLower rt ''skip'' = ''skip''" "strings_ToLower rt ''page'' = ''page''"
  by code_simp+

lemma ToInt_examples:
  "ToInt example_runtime (AString ''7'') = 7" "ToInt example_runtime (AFloat64 float_3_9) = 3"
  by (simp_all add: Atoi_def example_runtime_def is_digit_def digits_value_def float_3_9_def
        int64_of_float64_def fits_int64_def float64_trunc_def)

theorem buildOptions_translation_witness:
  "find_Sort (fst (buildOptions example_runtime example_opts)) = AMap [(''age'', AInt 1)]
   \<and> findone_Sort (snd (buildOptions example_runtime example_opts)) = AMap [(''age'', AInt 1)]
   \<and> find_Skip (fst (buildOptions example_runtime example_opts)) = Some 3
   \<and> findone_Skip (snd (buildOptions example_runtime example_opts)) = Some 3
   \<and> find_Limit (fst (buildOptions example_runtime example_opts)) = Some 7"
proof -
  have v:
    "option_value example_runtime ''sort'' example_opts = Some (AMap [(''age'', AInt 1)])"
    "option_value example_runtime ''skip'' example_opts = Some (AFloat64 float_3_9)"
    "option_value example_runtime ''limit'' example_opts = Some (AString ''7'')"
    by (simp_all add: option_value_def example_opts_def lower_examples)
  from buildOptions_translation [of example_runtime example_opts] show ?thesis
    by (simp add: v ToInt_examples del: ToInt.simps)
qed

theorem buildOptions_order_independent_witness:
  "distinct (map (\<lambda>kv. strings_ToLower example_runtime (fst kv)) example_opts)
   \<and> mset (rev example_opts) = mset example_opts
   \<and> buildOptions example_runtime (rev example_opts) = buildOptions example_runtime example_opts"
proof -
  have d: "distinct (map (\<lambda>kv. strings_ToLower example_runtime (fst kv)) example_opts)"
    by (simp add: example_opts_def lower_examples)
  have p: "mset (rev example_opts) = mset example_opts"
    by simp
  from d p buildOptions_order_independent [OF d p] show ?thesis
    by simp
qed

section \<open>The helper \<open>ToInt\<close>\<close>

lemma of_char_digit: "d < 10 \<Longrightarrow> (of_char (char_of (48 + d :: nat)) :: nat) = 48 + d"
  by simp

lemma is_digit_char: "d < 10 \<Longrightarrow> is_digit (char_of (48 + d :: nat))"
  by (simp add: is_digit_def)

lemma nat_digits_all: "list_all is_digit (nat_digits n)"
proof (induction n rule: nat_digits.induct)
  case (1 n)
  show ?case
  proof (cases "n < 10")
    case True
    then show ?thesis by (subst nat_digits.simps) (simp add: is_digit_char)
  next
    case False
    with 1 show ?thesis by (subst nat_digits.simps) (simp add: is_digit_char)
  qed
qed

lemma nat_digits_nonempty: "nat_digits n \<noteq> []"
  by (subst nat_digits.simps) simp

lemma digits_value_snoc: "digits_value (ds @ [c]) = digits_value ds * 10 + (int (of_char c) - 48)"
  by (simp add: digits_value_def)

lemma digits_value_nat_digits: "digits_value (nat_digits n) = int n"
proof (induction n rule: nat_digits.induct)
  case (1 n)
  show ?case
  proof (cases "n < 10")
    case True
    then show ?thesis by (subst nat_digits.simps) (simp add: digits_value_def)
  next
    case False
    with 1 have "digits_value (nat_digits (n div 10)) = int (n div 10)" by simp
    moreover have "int (n div 10) * 10 + int (n mod 10) = int n"
      by presburger
    ultimately show ?thesis using False
      by (subst nat_digits.simps) (simp add: digits_value_snoc)
  qed
qed

lemma hd_nat_digits: "is_digit (hd (nat_digits n))"
  using nat_digits_all [of n] nat_digits_nonempty [of n]
  by (cases "nat_digits n") simp_all

lemma digit_not_sign: "is_digit c \<Longrightarrow> c \<noteq> CHR ''-'' \<and> c \<noteq> CHR ''+''"
  by (auto simp: is_digit_def)

lemma Atoi_Itoa:
  assumes "- (2 ^ (IntSize rt - 1)) \<le> n" "n < 2 ^ (IntSize rt - 1)"
  shows "Atoi rt (Itoa n) = Inr n"
proof (cases "n < 0")
  case True
  with assms show ?thesis
    by (simp add: Atoi_def Itoa_def nat_digits_nonempty nat_digits_all digits_value_nat_digits)
next
  case False
  obtain c cs where cs: "nat_digits (nat n) = c # cs"
    using nat_digits_nonempty [of "nat n"] by (cases "nat_digits (nat n)") auto
  have "is_digit c" using hd_nat_digits [of "nat n"] cs by simp
  then have c: "c \<noteq> CHR ''-''" "c \<noteq> CHR ''+''" using digit_not_sign by auto
  have all: "list_all is_digit (c # cs)" using nat_digits_all [of "nat n"] cs by simp
  have v: "digits_value (c # cs) = n" using digits_value_nat_digits [of "nat n"] cs False by simp
  from False assms c all v show ?thesis
    by (simp add: Atoi_def Itoa_def cs)
qed

lemma float64_trunc_real:
  "float64_trunc m e =
     (if 0 \<le> m then \<lfloor>real_of_int m * 2 powi e\<rfloor> else \<lceil>real_of_int m * 2 powi e\<rceil>)"
proof (cases "0 \<le> e")
  case True
  then have "real_of_int m * 2 powi e = real_of_int (m * 2 ^ nat e)"
    by (simp add: power_int_def)
  then show ?thesis using True by (simp add: float64_trunc_def del: of_int_mult of_int_power)
next
  case False
  define k where "k = nat (- e)"
  have x: "real_of_int m * 2 powi e = real_of_int m / real_of_int (2 ^ k)"
    using False by (simp add: power_int_def k_def field_simps)
  show ?thesis
  proof (cases "0 \<le> m")
    case True
    have "\<lfloor>real_of_int m / real_of_int (2 ^ k)\<rfloor> = m div 2 ^ k"
      by (rule floor_divide_of_int_eq)
    moreover have "sgn m * (\<bar>m\<bar> div 2 ^ k) = m div 2 ^ k"
      using True by (cases "m = 0") (simp_all add: sgn_if)
    ultimately show ?thesis using True False x by (simp add: float64_trunc_def k_def)
  next
    case F: False
    have "\<lceil>real_of_int m / real_of_int (2 ^ k)\<rceil> = - \<lfloor>real_of_int (- m) / real_of_int (2 ^ k)\<rfloor>"
      by (simp add: ceiling_def)
    also have "\<dots> = - ((- m) div 2 ^ k)"
      by (simp only: floor_divide_of_int_eq)
    finally have "\<lceil>real_of_int m / real_of_int (2 ^ k)\<rceil> = - ((- m) div 2 ^ k)" .
    moreover have "sgn m * (\<bar>m\<bar> div 2 ^ k) = - ((- m) div 2 ^ k)"
      using F by (simp add: sgn_if)
    ultimately show ?thesis using F False x by (simp add: float64_trunc_def k_def)
  qed
qed

lemma sint_word_of_int_64:
  "- (2 ^ 63) \<le> n \<Longrightarrow> n < 2 ^ 63 \<Longrightarrow> sint (word_of_int n :: 64 word) = n"
  by (simp add: sint_sbintrunc' signed_take_bit_int_eq_self)


lemma Atoi_decimal_numeral:
  "Atoi rt s =
     (case decimal_numeral s of
        None \<Rightarrow> Inl (NumError s)
      | Some n \<Rightarrow>
          if n < - (2 ^ (IntSize rt - 1)) \<or> 2 ^ (IntSize rt - 1) \<le> n then Inl (NumError s)
          else Inr n)"
proof (cases s)
  case Nil
  then show ?thesis by (simp add: Atoi_def decimal_numeral_def)
next
  case (Cons c cs)
  then show ?thesis
    by (auto simp: Atoi_def decimal_numeral_def Let_def)
qed

lemma ToInt_string:
  "ToInt rt (AString s) =
     (case decimal_numeral s of
        None \<Rightarrow> 0
      | Some n \<Rightarrow>
          if - (2 ^ (IntSize rt - 1)) \<le> n \<and> n < 2 ^ (IntSize rt - 1) then word_of_int n else 0)"
  by (simp add: Atoi_decimal_numeral split: option.splits)

lemma ToInt_Itoa:
  assumes "IntSize rt = 32 \<or> IntSize rt = 64"
    and "- (2 ^ (IntSize rt - 1)) \<le> n" "n < 2 ^ (IntSize rt - 1)"
  shows "sint (ToInt rt (AString (Itoa n))) = n"
proof -
  have "(2::int) ^ (IntSize rt - 1) \<le> 2 ^ 63"
    using assms(1) by auto
  with assms(2,3) have "- (2 ^ 63) \<le> n" "n < 2 ^ 63" by linarith+
  then have "sint (word_of_int n :: 64 word) = n" by (rule sint_word_of_int_64)
  then show ?thesis using assms(2,3) by (simp add: Atoi_Itoa)
qed

lemma ToInt_float:
  assumes "fits_int64 (Finite m e)"
  shows "sint (ToInt rt (AFloat64 (Finite m e))) =
     (if 0 \<le> m then \<lfloor>real_of_int m * 2 powi e\<rfloor> else \<lceil>real_of_int m * 2 powi e\<rceil>)"
proof -
  from assms have "- (2 ^ 63) \<le> float64_trunc m e" "float64_trunc m e < 2 ^ 63"
    by (simp_all add: fits_int64_def)
  then have "sint (word_of_int (float64_trunc m e) :: 64 word) = float64_trunc m e"
    by (rule sint_word_of_int_64)
  with assms show ?thesis
    by (simp add: int64_of_float64_def float64_trunc_real)
qed

lemma ToInt_other: "\<not> is_string v \<Longrightarrow> \<not> is_float64 v \<Longrightarrow> ToInt rt v = 0"
  by (cases v) (simp_all add: is_string_def is_float64_def)

lemma ToInt_spec_examples:
  assumes "IntSize rt = 32 \<or> IntSize rt = 64"
  shows "ToInt rt (AString ''42'') = 42" "ToInt rt (AString ''abc'') = 0"
    "ToInt rt (AFloat64 float_3_9) = 3"
  using assms
  by (auto simp: Atoi_def is_digit_def digits_value_def float_3_9_def
        int64_of_float64_def fits_int64_def float64_trunc_def)

text \<open>
  Claim C5, as amended. On an implementation whose \<open>int\<close> has 32 or 64 bits, \<open>ToInt\<close>
  gives, for a string that is an optional sign followed by decimal digits, the integer
  it writes in base 10 when that integer fits \<open>int\<close>, and zero for every other string;
  in particular the decimal numeral of every integer of the \<open>int\<close> range is read back
  as that integer. For a finite float whose integer part fits \<open>int64\<close> it gives the
  value truncated toward zero. For every input that is neither a string nor a
  \<open>float64\<close> it gives zero. \<open>ToInt("42") = 42\<close>, \<open>ToInt("abc") = 0\<close> and
  \<open>ToInt(3.9) = 3\<close>. Nothing is said of NaN, of the infinities and of floats whose
  integer part does not fit \<open>int64\<close>: there the result is the implementation's.
\<close>

theorem ToInt_conversion:
  assumes "IntSize rt = 32 \<or> IntSize rt = 64"
  shows
    "(\<forall>s. ToInt rt (AString s) =
        (case decimal_numeral s of
           None \<Rightarrow> 0
         | Some n \<Rightarrow>
             if - (2 ^ (IntSize rt - 1)) \<le> n \<and> n < 2 ^ (IntSize rt - 1)
             then word_of_int n else 0))
     \<and> (\<forall>n. - (2 ^ (IntSize rt - 1)) \<le> n \<and> n < 2 ^ (IntSize rt - 1) \<longrightarrow>
            sint (ToInt rt (AString (Itoa n))) = n)
     \<and> (\<forall>m e. fits_int64 (Finite m e) \<longrightarrow>
            sint (ToInt rt (AFloat64 (Finite m e))) =
              (if 0 \<le> m then \<lfloor>real_of_int m * 2 powi e\<rfloor>
               else \<lceil>real_of_int m * 2 powi e\<rceil>))
     \<and> (\<forall>v. \<not> is_string v \<and> \<not> is_float64 v \<longrightarrow> ToInt rt v = 0)
     \<and> ToInt rt (AString ''42'') = 42
     \<and> ToInt rt (AString ''abc'') = 0
     \<and> ToInt rt (AFloat64 float_3_9) = 3"
proof (intro conjI allI impI)
  fix s
  show "ToInt rt (AString s) =
        (case decimal_numeral s of
           None \<Rightarrow> 0
         | Some n \<Rightarrow>
             if - (2 ^ (IntSize rt - 1)) \<le> n \<and> n < 2 ^ (IntSize rt - 1)
             then word_of_int n else 0)"
    by (rule ToInt_string)
next
  fix n :: int
  assume "- (2 ^ (IntSize rt - 1)) \<le> n \<and> n < 2 ^ (IntSize rt - 1)"
  with assms show "sint (ToInt rt (AString (Itoa n))) = n"
    by (intro ToInt_Itoa) simp_all
next
  fix m e
  assume "fits_int64 (Finite m e)"
  then show "sint (ToInt rt (AFloat64 (Finite m e))) =
              (if 0 \<le> m then \<lfloor>real_of_int m * 2 powi e\<rfloor>
               else \<lceil>real_of_int m * 2 powi e\<rceil>)"
    by (rule ToInt_float)
next
  fix v
  assume "\<not> is_string v \<and> \<not> is_float64 v"
  then show "ToInt rt v = 0" by (simp add: ToInt_other)
qed (simp_all only: ToInt_spec_examples [OF assms])

lemma Itoa_minus_42: "Itoa (- 42) = ''-42''"
  by code_simp

theorem ToInt_conversion_witness:
  "(IntSize example_runtime = 32 \<or> IntSize example_runtime = 64)
   \<and> ToInt example_runtime (AString ''42'') = 42
   \<and> ToInt example_runtime (AString ''abc'') = 0
   \<and> ToInt example_runtime (AFloat64 float_3_9) = 3
   \<and> sint (ToInt example_runtime (AString ''-42'')) = - 42
   \<and> fits_int64 (Finite (- 7) (- 1))
   \<and> sint (ToInt example_runtime (AFloat64 (Finite (- 7) (- 1))))
       = \<lceil>real_of_int (- 7) * 2 powi (- 1)\<rceil>
   \<and> sint (ToInt example_runtime (AFloat64 (Finite (- 7) (- 1)))) = - 3
   \<and> ToInt example_runtime (AInt 42) = 0"
proof -
  have h: "IntSize example_runtime = 32 \<or> IntSize example_runtime = 64"
    by (simp add: example_runtime_def)
  note t = ToInt_conversion [OF h]
  have r: "- (2 ^ (IntSize example_runtime - 1)) \<le> (- 42 :: int)
           \<and> (- 42 :: int) < 2 ^ (IntSize example_runtime - 1)"
    by (simp add: example_runtime_def)
  from t have "sint (ToInt example_runtime (AString (Itoa (- 42)))) = - 42"
    using r by blast
  then have a: "sint (ToInt example_runtime (AString ''-42'')) = - 42"
    by (simp only: Itoa_minus_42)
  have o: "\<not> is_string (AInt 42) \<and> \<not> is_float64 (AInt 42)"
    by (simp add: is_string_def is_float64_def)
  from t have b: "ToInt example_runtime (AInt 42) = 0"
    using o by blast
  from t have c: "ToInt example_runtime (AString ''42'') = 42
     \<and> ToInt example_runtime (AString ''abc'') = 0
     \<and> ToInt example_runtime (AFloat64 float_3_9) = 3"
    by blast
  have f: "fits_int64 (Finite (- 7) (- 1))"
    by (simp add: fits_int64_def float64_trunc_def)
  from t have "\<forall>m e. fits_int64 (Finite m e) \<longrightarrow>
            sint (ToInt example_runtime (AFloat64 (Finite m e))) =
              (if 0 \<le> m then \<lfloor>real_of_int m * 2 powi e\<rfloor>
               else \<lceil>real_of_int m * 2 powi e\<rceil>)"
    by blast
  from this [rule_format, OF f]
  have d: "sint (ToInt example_runtime (AFloat64 (Finite (- 7) (- 1))))
       = \<lceil>real_of_int (- 7) * 2 powi (- 1)\<rceil>"
    by simp
  have e: "sint (ToInt example_runtime (AFloat64 (Finite (- 7) (- 1)))) = - 3"
    by (simp add: int64_of_float64_def fits_int64_def float64_trunc_def)
  from h a b c d e f show ?thesis by blast
qed

text \<open>
  Not every float is truncated toward zero. The float \<open>2 ^ 63\<close> is its own integer
  part, which no \<open>int64\<close> holds: whatever the implementation returns is smaller.
\<close>

lemma ToInt_float_2_63_any_runtime:
  "sint (ToInt rt (AFloat64 float_2_63)) < float64_trunc 1 63"
proof -
  have "sint (ToInt rt (AFloat64 float_2_63)) < 2 ^ 63"
    using sint_lt [of "ToInt rt (AFloat64 float_2_63)"] by simp
  then show ?thesis by (simp add: float64_trunc_def)
qed

text \<open>
  On the implementation of the examples the conversion of \<open>2 ^ 63\<close> gives the least
  \<open>int64\<close>.
\<close>

theorem ToInt_float_out_of_range:
  "float64_trunc 1 63 = 9223372036854775808
   \<and> sint (ToInt example_runtime (AFloat64 float_2_63)) = - 9223372036854775808"
  by (simp add: float64_trunc_def float_2_63_def int64_of_float64_def fits_int64_def
        example_runtime_def)

section \<open>The calls made by the operations\<close>

lemma recording_sel:
  "mongo_Connect (recording drv) c uri = logged (ReqConnect c uri) (mongo_Connect drv c uri)"
  "Client_Ping (recording drv) cl c rp = logged (ReqPing cl c rp) (Client_Ping drv cl c rp)"
  "Collection_InsertOne (recording drv) col c d =
     logged (ReqInsertOne col c d) (Collection_InsertOne drv col c d)"
  "Collection_InsertMany (recording drv) col c ds =
     logged (ReqInsertMany col c ds) (Collection_InsertMany drv col c ds)"
  "Collection_UpdateOne (recording drv) col c f u uo =
     logged (ReqUpdateOne col c f u uo) (Collection_UpdateOne drv col c f u uo)"
  "Collection_FindOne (recording drv) col c fl fo =
     logged (ReqFindOne col c fl fo) (Collection_FindOne drv col c fl fo)"
  "SingleResult_Decode (recording drv) = SingleResult_Decode drv"
  "Collection_Find (recording drv) col c fl fopt =
     logged (ReqFind col c fl fopt) (Collection_Find drv col c fl fopt)"
  "Cursor_All (recording drv) cur c t = logged (ReqAll cur c t) (Cursor_All drv cur c t)"
  "Cursor_Close (recording drv) cur c = logged (ReqClose cur c) (Cursor_Close drv cur c)"
  "Collection_DeleteMany (recording drv) col c fl =
     logged (ReqDeleteMany col c fl) (Collection_DeleteMany drv col c fl)"
  by (simp_all add: recording_def)

lemma logged_eq: "f s = (r, s') \<Longrightarrow> logged rq f (s, calls) = (r, s', calls @ [rq])"
  by (simp add: logged_def)

lemma HealthCheck_calls:
  "Client_Ping drv (client m) (ctx m) Primary s = (r, s') \<Longrightarrow>
   HealthCheck (recording drv) m (s, calls) = (r, s', calls @ [ReqPing (client m) (ctx m) Primary])"
  by (simp add: HealthCheck_def recording_sel logged_eq)

lemma InsertOne_calls:
  "Collection_InsertOne drv (Collection (database m) col) (ctx m) d s = (r, s') \<Longrightarrow>
   InsertOne (recording drv) m col d (s, calls) =
     (r, s', calls @ [ReqInsertOne (Collection (database m) col) (ctx m) d])"
  by (simp add: InsertOne_def recording_sel logged_eq)

lemma InsertMany_calls:
  "Collection_InsertMany drv (Collection (database m) col) (ctx m) ds s = (r, s') \<Longrightarrow>
   InsertMany (recording drv) m col ds (s, calls) =
     (r, s', calls @ [ReqInsertMany (Collection (database m) col) (ctx m) ds])"
  by (simp add: InsertMany_def recording_sel logged_eq)

lemma Upsert_calls:
  "Collection_UpdateOne drv (Collection (database m) col) (ctx m) flt (AMap [(''$set'', d)])
     \<lparr>upd_Upsert = Some True\<rparr> s = (r, s') \<Longrightarrow>
   Upsert (recording drv) m col flt d (s, calls) =
     (r, s', calls @ [ReqUpdateOne (Collection (database m) col) (ctx m) flt
        (AMap [(''$set'', d)]) \<lparr>upd_Upsert = Some True\<rparr>])"
  by (simp add: Upsert_def recording_sel logged_eq)


lemma FindOne_calls:
  "Collection_FindOne drv (Collection (database m) col) (ctx m) flt (snd (buildOptions rt opts)) s
     = (sr, s') \<Longrightarrow>
   FindOne rt (recording drv) m col flt t opts (s, calls) =
     (SingleResult_Decode drv sr t, s',
      calls @ [ReqFindOne (Collection (database m) col) (ctx m) flt (snd (buildOptions rt opts))])"
  by (simp add: FindOne_def Let_def recording_sel logged_eq split: sum.splits)




lemma FindMany_find_fails_calls:
  "Collection_Find drv (Collection (database m) col) (ctx m) flt (fst (buildOptions rt opts)) s
     = (Inl e, s1) \<Longrightarrow>
   FindMany rt (recording drv) m col flt t opts (s, calls) =
     (Inl e, s1,
      calls @ [ReqFind (Collection (database m) col) (ctx m) flt (fst (buildOptions rt opts))])"
  by (simp add: FindMany_def recording_sel logged_eq)

lemma FindMany_all_fails_calls:
  "Collection_Find drv (Collection (database m) col) (ctx m) flt (fst (buildOptions rt opts)) s
     = (Inr cur, s1) \<Longrightarrow>
   Cursor_All drv cur (ctx m) t s1 = (Inl e, s2) \<Longrightarrow>
   FindMany rt (recording drv) m col flt t opts (s, calls) =
     (Inl e, s2,
      calls @ [ReqFind (Collection (database m) col) (ctx m) flt (fst (buildOptions rt opts)),
               ReqAll cur (ctx m) t])"
  by (simp add: FindMany_def recording_sel logged_eq)

lemma FindMany_success_calls:
  "Collection_Find drv (Collection (database m) col) (ctx m) flt (fst (buildOptions rt opts)) s
     = (Inr cur, s1) \<Longrightarrow>
   Cursor_All drv cur (ctx m) t s1 = (Inr v, s2) \<Longrightarrow>
   Cursor_Close drv cur (ctx m) s2 = (ce, s3) \<Longrightarrow>
   FindMany rt (recording drv) m col flt t opts (s, calls) =
     (Inr v, s3,
      calls @ [ReqFind (Collection (database m) col) (ctx m) flt (fst (buildOptions rt opts)),
               ReqAll cur (ctx m) t, ReqClose cur (ctx m)])"
  by (simp add: FindMany_def recording_sel logged_eq)

lemma Delete_empty: "Delete drv m col [] s = (Some (errors_New ''filter cannot be empty''), s)"
  by (simp add: Delete_def)


lemma Delete_nonempty_calls:
  "flt \<noteq> [] \<Longrightarrow>
   Collection_DeleteMany drv (Collection (database m) col) (ctx m) flt s = ((res, err), s1) \<Longrightarrow>
   Delete (recording drv) m col flt (s, calls) =
     (err, s1, calls @ [ReqDeleteMany (Collection (database m) col) (ctx m) flt])"
  by (simp add: Delete_def recording_sel logged_eq)

lemma store_sel:
  "mongo_Connect store_driver = store_Connect"
  "Client_Ping store_driver = store_Ping"
  "Collection_InsertOne store_driver = store_InsertOne"
  "Collection_InsertMany store_driver = store_InsertMany"
  "Collection_UpdateOne store_driver = store_UpdateOne"
  "Collection_FindOne store_driver = store_FindOne"
  "SingleResult_Decode store_driver = store_Decode"
  "Collection_Find store_driver = store_Find"
  "Cursor_All store_driver = store_All"
  "Cursor_Close store_driver = store_Close"
  "Collection_DeleteMany store_driver = store_DeleteMany"
  by (simp_all add: store_driver_def)

lemma Delete_store:
  "flt \<noteq> [] \<Longrightarrow>
   Delete store_driver m col flt st =
     (None, st\<lparr>store_docs := (store_docs st)(Collection (database m) col :=
        filter (\<lambda>d. \<not> matches flt d) (store_docs st (Collection (database m) col)))\<rparr>)"
  by (simp add: Delete_def Let_def store_sel store_DeleteMany_def)














lemma example_collection: "Collection (database example_storage) ''users'' = users"
  by (simp add: example_storage_def users_def)

lemma users_docs: "store_docs users_store users = [ann, bob]"
  by (simp add: users_store_def)

lemma matches_examples:
  "matches (by_name ''ann'') ann" "\<not> matches (by_name ''ann'') bob"
  "\<not> matches (by_name ''cy'') ann" "\<not> matches (by_name ''cy'') bob"
  "matches [] ann" "matches [] bob"
  by (simp_all add: matches_def by_name_def ann_def bob_def)

section \<open>\<open>Delete\<close>\<close>

text \<open>
  Claim C1. With an empty filter \<open>Delete\<close> fails with the error
  \<open>filter cannot be empty\<close> and no call reaches the driver: the state of the driver and
  the list of calls are as before. With a non-empty filter \<open>Delete\<close> makes one
  delete-many call with that filter and returns what the driver reports as the error,
  whatever the result of the call says about the number removed; on the reference
  database the call removes every matching document, none if none matches, and
  \<open>Delete\<close> reports success.
\<close>

theorem Delete_filter_guard:
  "(flt = [] \<longrightarrow>
      Delete (recording drv) m col flt (s, calls)
        = (Some (errors_New ''filter cannot be empty''), s, calls))
   \<and> (flt \<noteq> [] \<longrightarrow>
        (\<forall>res err s1.
           Collection_DeleteMany drv (Collection (database m) col) (ctx m) flt s = ((res, err), s1)
           \<longrightarrow> Delete (recording drv) m col flt (s, calls)
                 = (err, s1, calls @ [ReqDeleteMany (Collection (database m) col) (ctx m) flt])))
   \<and> (flt \<noteq> [] \<longrightarrow>
        Delete store_driver m col flt st =
          (None,
           st\<lparr>store_docs := (store_docs st)(Collection (database m) col :=
                filter (\<lambda>d. \<not> matches flt d) (store_docs st (Collection (database m) col)))\<rparr>))"
  by (simp add: Delete_empty Delete_nonempty_calls Delete_store)

theorem Delete_filter_guard_witness:
  "Delete (recording store_driver) example_storage ''users'' [] (users_store, [])
     = (Some (errors_New ''filter cannot be empty''), users_store, [])
   \<and> by_name ''ann'' \<noteq> []
   \<and> Delete (recording store_driver) example_storage ''users'' (by_name ''ann'') (users_store, [])
       = (None, users_store\<lparr>store_docs := (store_docs users_store)(users := [bob])\<rparr>,
          [ReqDeleteMany users 0 (by_name ''ann'')])
   \<and> Delete store_driver example_storage ''users'' (by_name ''cy'') users_store
       = (None, users_store\<lparr>store_docs := (store_docs users_store)(users := [ann, bob])\<rparr>)"
proof -
  have n: "by_name ''ann'' \<noteq> []" "by_name ''cy'' \<noteq> []"
    by (simp_all add: by_name_def)
  have d: "Collection_DeleteMany store_driver users 0 (by_name ''ann'') users_store =
      ((Some \<lparr>DeletedCount = 1\<rparr>, None),
       users_store\<lparr>store_docs := (store_docs users_store)(users := [bob])\<rparr>)"
    by (simp add: store_sel store_DeleteMany_def users_docs matches_examples)
  have c0: "ctx example_storage = 0" by (simp add: example_storage_def)
  from Delete_filter_guard [of "[]" store_driver example_storage "''users''" users_store "[]"]
  have a: "Delete (recording store_driver) example_storage ''users'' [] (users_store, [])
     = (Some (errors_New ''filter cannot be empty''), users_store, [])"
    by simp
  from Delete_filter_guard [of "by_name ''ann''" store_driver example_storage "''users''"
      users_store "[]"] n d
  have b: "Delete (recording store_driver) example_storage ''users'' (by_name ''ann'') (users_store, [])
       = (None, users_store\<lparr>store_docs := (store_docs users_store)(users := [bob])\<rparr>,
          [ReqDeleteMany users 0 (by_name ''ann'')])"
    by (simp add: example_collection c0)
  from Delete_filter_guard [of "by_name ''cy''" store_driver example_storage "''users''"
      users_store "[]" users_store] n
  have c: "Delete store_driver example_storage ''users'' (by_name ''cy'') users_store
       = (None, users_store\<lparr>store_docs := (store_docs users_store)(users := [ann, bob])\<rparr>)"
    by (simp add: example_collection users_docs matches_examples)
  from a n(1) b c show ?thesis by blast
qed

section \<open>\<open>Upsert\<close>\<close>

lemma update_first_none: "\<not> list_ex P xs \<Longrightarrow> update_first P f xs = xs"
  by (induction xs) auto

lemma update_first_some:
  "list_ex P xs \<Longrightarrow>
   \<exists>i. i < length xs \<and> P (xs ! i) \<and> (\<forall>j<i. \<not> P (xs ! j)) \<and>
       update_first P f xs = xs[i := f (xs ! i)]"
proof (induction xs)
  case Nil
  then show ?case by simp
next
  case (Cons x xs)
  show ?case
  proof (cases "P x")
    case True
    then have "0 < length (x # xs) \<and> P ((x # xs) ! 0) \<and> (\<forall>j<0. \<not> P ((x # xs) ! j)) \<and>
       update_first P f (x # xs) = (x # xs)[0 := f ((x # xs) ! 0)]"
      by simp
    then show ?thesis by blast
  next
    case False
    with Cons.prems have "list_ex P xs" by simp
    from Cons.IH [OF this] obtain i where i: "i < length xs" "P (xs ! i)"
      "\<forall>j<i. \<not> P (xs ! j)" "update_first P f xs = xs[i := f (xs ! i)]"
      by blast
    have "\<forall>j<Suc i. \<not> P ((x # xs) ! j)"
    proof (intro allI impI)
      fix j assume "j < Suc i"
      then show "\<not> P ((x # xs) ! j)"
        using False i(3) by (cases j) auto
    qed
    with i False have "Suc i < length (x # xs) \<and> P ((x # xs) ! Suc i) \<and>
       (\<forall>j<Suc i. \<not> P ((x # xs) ! j)) \<and>
       update_first P f (x # xs) = (x # xs)[Suc i := f ((x # xs) ! Suc i)]"
      by simp
    then show ?thesis by blast
  qed
qed

lemma map_of_set_fields_rev:
  "map_of (set_fields fs d) k =
     (case map_of (rev fs) k of Some v \<Rightarrow> Some v | None \<Rightarrow> map_of d k)"
proof (induction fs arbitrary: d)
  case Nil
  then show ?case by (simp add: set_fields_def)
next
  case (Cons kv fs)
  have "set_fields (kv # fs) d = set_fields fs (AList.update (fst kv) (snd kv) d)"
    by (simp add: set_fields_def)
  then show ?case
    by (cases kv) (auto simp: Cons.IH update_conv' map_add_def split: option.splits)
qed

lemma map_of_rev_distinct: "distinct (map fst xs) \<Longrightarrow> map_of (rev xs) = map_of xs"
proof -
  assume d: "distinct (map fst xs)"
  then have "distinct (map fst (rev xs))" by (simp add: rev_map [symmetric])
  then show ?thesis using d by (simp add: map_of_inject_set)
qed

lemma map_of_set_fields:
  "distinct (map fst fs) \<Longrightarrow>
   map_of (set_fields fs d) k = (case map_of fs k of Some v \<Rightarrow> Some v | None \<Rightarrow> map_of d k)"
  by (simp add: map_of_set_fields_rev map_of_rev_distinct)

lemma matches_document: "matches fl d \<Longrightarrow> \<exists>old. d = AMap old"
  by (cases d) (simp_all add: matches_def)

lemma Upsert_store:
  "Upsert store_driver m col (AMap fl) (AMap fs) st =
     store_UpdateOne (Collection (database m) col) (ctx m) (AMap fl) (AMap [(''$set'', AMap fs)])
       \<lparr>upd_Upsert = Some True\<rparr> st"
  by (simp add: Upsert_def Let_def store_sel)

lemma Upsert_store_match:
  assumes "list_ex (matches fl) (store_docs st (Collection (database m) col))"
  shows "Upsert store_driver m col (AMap fl) (AMap fs) st =
     ((Some \<lparr>MatchedCount = 1,
             ModifiedCount =
               (if update_first (matches fl) (apply_set fs) (store_docs st (Collection (database m) col))
                   = store_docs st (Collection (database m) col) then 0 else 1),
             UpsertedCount = 0, UpsertedID = ANil\<rparr>, None),
      st\<lparr>store_docs := (store_docs st)(Collection (database m) col :=
           update_first (matches fl) (apply_set fs) (store_docs st (Collection (database m) col)))\<rparr>)"
  using assms by (simp add: Upsert_store store_UpdateOne_def Let_def)

lemma Upsert_store_no_match:
  assumes "\<not> list_ex (matches fl) (store_docs st (Collection (database m) col))"
  shows "Upsert store_driver m col (AMap fl) (AMap fs) st =
     ((Some \<lparr>MatchedCount = 0, ModifiedCount = 0, UpsertedCount = 1,
             UpsertedID = AObjectID (store_next st)\<rparr>, None),
      st\<lparr>store_docs := (store_docs st)(Collection (database m) col :=
           store_docs st (Collection (database m) col) @ [AMap (set_fields fs fl)]),
         store_next := Suc (store_next st)\<rparr>)"
  using assms by (simp add: Upsert_store store_UpdateOne_def Let_def)

text \<open>
  Claim C7, on the reference database. For every filter and every document (a map, so
  with distinct keys): when some document of the collection matches the filter, \<open>Upsert\<close>
  changes the first matching document only, at its position, giving each field of the
  provided document its new value and leaving every other field as it was; when no
  document matches, it adds one document whose fields are those of the filter overridden
  by those of the provided document. In both cases one document is affected: matched
  plus upserted count is one.
\<close>

theorem Upsert_set_semantics:
  assumes "distinct (map fst fs)"
  shows
    "(list_ex (matches fl) (store_docs st (Collection (database m) col)) \<longrightarrow>
        (\<exists>i old new r.
           i < length (store_docs st (Collection (database m) col))
           \<and> store_docs st (Collection (database m) col) ! i = AMap old
           \<and> matches fl (AMap old)
           \<and> (\<forall>j<i. \<not> matches fl (store_docs st (Collection (database m) col) ! j))
           \<and> Upsert store_driver m col (AMap fl) (AMap fs) st =
               ((Some r, None),
                st\<lparr>store_docs := (store_docs st)(Collection (database m) col :=
                     (store_docs st (Collection (database m) col))[i := AMap new])\<rparr>)
           \<and> MatchedCount r = 1 \<and> UpsertedCount r = 0
           \<and> (\<forall>k. map_of new k = (case map_of fs k of Some v \<Rightarrow> Some v | None \<Rightarrow> map_of old k))))
     \<and> (\<not> list_ex (matches fl) (store_docs st (Collection (database m) col)) \<longrightarrow>
        (\<exists>new r.
           Upsert store_driver m col (AMap fl) (AMap fs) st =
               ((Some r, None),
                st\<lparr>store_docs := (store_docs st)(Collection (database m) col :=
                     store_docs st (Collection (database m) col) @ [AMap new]),
                   store_next := Suc (store_next st)\<rparr>)
           \<and> MatchedCount r = 0 \<and> UpsertedCount r = 1
           \<and> (\<forall>k. map_of new k = (case map_of fs k of Some v \<Rightarrow> Some v | None \<Rightarrow> map_of fl k))))"
proof (intro conjI impI)
  let ?ds = "store_docs st (Collection (database m) col)"
  assume ex: "list_ex (matches fl) ?ds"
  from update_first_some [OF ex, of "apply_set fs"] obtain i where i: "i < length ?ds"
    "matches fl (?ds ! i)" "\<forall>j<i. \<not> matches fl (?ds ! j)"
    "update_first (matches fl) (apply_set fs) ?ds = ?ds[i := apply_set fs (?ds ! i)]"
    by blast
  from matches_document [OF i(2)] obtain old where old: "?ds ! i = AMap old" by blast
  have new: "apply_set fs (?ds ! i) = AMap (set_fields fs old)"
    by (simp add: old apply_set_def)
  let ?r = "\<lparr>MatchedCount = 1,
             ModifiedCount = (if update_first (matches fl) (apply_set fs) ?ds = ?ds then 0 else 1),
             UpsertedCount = 0, UpsertedID = ANil\<rparr>"
  have u: "Upsert store_driver m col (AMap fl) (AMap fs) st =
     ((Some ?r, None),
      st\<lparr>store_docs := (store_docs st)(Collection (database m) col := ?ds[i := AMap (set_fields fs old)])\<rparr>)"
    using Upsert_store_match [OF ex, of fs] i(4) new by simp
  have f: "\<forall>k. map_of (set_fields fs old) k =
      (case map_of fs k of Some v \<Rightarrow> Some v | None \<Rightarrow> map_of old k)"
    using assms by (simp add: map_of_set_fields)
  have "i < length ?ds \<and> ?ds ! i = AMap old \<and> matches fl (AMap old)
      \<and> (\<forall>j<i. \<not> matches fl (?ds ! j))
      \<and> Upsert store_driver m col (AMap fl) (AMap fs) st =
           ((Some ?r, None),
            st\<lparr>store_docs := (store_docs st)(Collection (database m) col :=
                 ?ds[i := AMap (set_fields fs old)])\<rparr>)
      \<and> MatchedCount ?r = 1 \<and> UpsertedCount ?r = 0
      \<and> (\<forall>k. map_of (set_fields fs old) k =
            (case map_of fs k of Some v \<Rightarrow> Some v | None \<Rightarrow> map_of old k))"
    using i(1,3) i(2) old u f by simp
  then show "\<exists>i old new r.
           i < length ?ds \<and> ?ds ! i = AMap old \<and> matches fl (AMap old)
           \<and> (\<forall>j<i. \<not> matches fl (?ds ! j))
           \<and> Upsert store_driver m col (AMap fl) (AMap fs) st =
               ((Some r, None),
                st\<lparr>store_docs := (store_docs st)(Collection (database m) col := ?ds[i := AMap new])\<rparr>)
           \<and> MatchedCount r = 1 \<and> UpsertedCount r = 0
           \<and> (\<forall>k. map_of new k = (case map_of fs k of Some v \<Rightarrow> Some v | None \<Rightarrow> map_of old k))"
    by blast
next
  let ?ds = "store_docs st (Collection (database m) col)"
  assume nex: "\<not> list_ex (matches fl) ?ds"
  let ?r = "\<lparr>MatchedCount = 0, ModifiedCount = 0, UpsertedCount = 1,
             UpsertedID = AObjectID (store_next st)\<rparr>"
  have f: "\<forall>k. map_of (set_fields fs fl) k =
      (case map_of fs k of Some v \<Rightarrow> Some v | None \<Rightarrow> map_of fl k)"
    using assms by (simp add: map_of_set_fields)
  have "Upsert store_driver m col (AMap fl) (AMap fs) st =
               ((Some ?r, None),
                st\<lparr>store_docs := (store_docs st)(Collection (database m) col :=
                     ?ds @ [AMap (set_fields fs fl)]),
                   store_next := Suc (store_next st)\<rparr>)
           \<and> MatchedCount ?r = 0 \<and> UpsertedCount ?r = 1
           \<and> (\<forall>k. map_of (set_fields fs fl) k =
                (case map_of fs k of Some v \<Rightarrow> Some v | None \<Rightarrow> map_of fl k))"
    using Upsert_store_no_match [OF nex, of fs] f by simp
  then show "\<exists>new r.
           Upsert store_driver m col (AMap fl) (AMap fs) st =
               ((Some r, None),
                st\<lparr>store_docs := (store_docs st)(Collection (database m) col := ?ds @ [AMap new]),
                   store_next := Suc (store_next st)\<rparr>)
           \<and> MatchedCount r = 0 \<and> UpsertedCount r = 1
           \<and> (\<forall>k. map_of new k = (case map_of fs k of Some v \<Rightarrow> Some v | None \<Rightarrow> map_of fl k))"
    by blast
qed

theorem Upsert_set_semantics_witness:
  "distinct (map fst [(''age'', AInt 31)])
   \<and> list_ex (matches (by_name ''ann'')) (store_docs users_store (Collection (database example_storage) ''users''))
   \<and> \<not> list_ex (matches (by_name ''cy'')) (store_docs users_store (Collection (database example_storage) ''users''))
   \<and> (\<exists>r s'. Upsert store_driver example_storage ''users'' (AMap (by_name ''ann''))
                (AMap [(''age'', AInt 31)]) users_store = ((Some r, None), s')
             \<and> MatchedCount r = 1 \<and> UpsertedCount r = 0)
   \<and> (\<exists>r s'. Upsert store_driver example_storage ''users'' (AMap (by_name ''cy''))
                (AMap [(''age'', AInt 31)]) users_store = ((Some r, None), s')
             \<and> MatchedCount r = 0 \<and> UpsertedCount r = 1)
   \<and> store_docs (snd (Upsert store_driver example_storage ''users'' (AMap (by_name ''ann''))
                (AMap [(''age'', AInt 31)]) users_store)) users
       = [AMap [(''name'', AString ''ann''), (''age'', AInt 31)], bob]
   \<and> store_docs (snd (Upsert store_driver example_storage ''users'' (AMap (by_name ''cy''))
                (AMap [(''age'', AInt 31)]) users_store)) users
       = [ann, bob, AMap [(''name'', AString ''cy''), (''age'', AInt 31)]]"
proof -
  have h: "distinct (map fst [(''age'', AInt 31)])" by simp
  have y: "list_ex (matches (by_name ''ann''))
      (store_docs users_store (Collection (database example_storage) ''users''))"
    by (simp add: example_collection users_docs matches_examples)
  have n: "\<not> list_ex (matches (by_name ''cy''))
      (store_docs users_store (Collection (database example_storage) ''users''))"
    by (simp add: example_collection users_docs matches_examples)
  note t1 = Upsert_set_semantics [OF h, of "by_name ''ann''" users_store example_storage "''users''"]
  note t2 = Upsert_set_semantics [OF h, of "by_name ''cy''" users_store example_storage "''users''"]
  from t1 y have a: "\<exists>r s'. Upsert store_driver example_storage ''users'' (AMap (by_name ''ann''))
                (AMap [(''age'', AInt 31)]) users_store = ((Some r, None), s')
             \<and> MatchedCount r = 1 \<and> UpsertedCount r = 0"
    by blast
  from t2 n have b: "\<exists>r s'. Upsert store_driver example_storage ''users'' (AMap (by_name ''cy''))
                (AMap [(''age'', AInt 31)]) users_store = ((Some r, None), s')
             \<and> MatchedCount r = 0 \<and> UpsertedCount r = 1"
    by blast
  have c: "store_docs (snd (Upsert store_driver example_storage ''users'' (AMap (by_name ''ann''))
                (AMap [(''age'', AInt 31)]) users_store)) users
       = [AMap [(''name'', AString ''ann''), (''age'', AInt 31)], bob]"
    using y by (simp add: Upsert_store_match)
      (simp add: example_collection users_docs matches_examples apply_set_def set_fields_def ann_def)
  have d: "store_docs (snd (Upsert store_driver example_storage ''users'' (AMap (by_name ''cy''))
                (AMap [(''age'', AInt 31)]) users_store)) users
       = [ann, bob, AMap [(''name'', AString ''cy''), (''age'', AInt 31)]]"
    using n by (simp add: Upsert_store_no_match)
      (simp add: example_collection users_docs set_fields_def by_name_def)
  from h y n a b c d show ?thesis by blast
qed

section \<open>The context of the storage\<close>

lemma NewMongo_context:
  assumes "NewMongo drv now uri dbName (cs, s) = (Inr m, cs', s')"
  shows "ctx m = length cs
     \<and> cs' ! ctx m = \<lparr>ctx_deadline = Some (now + 30 * Second), ctx_err = Some Canceled\<rparr>"
  using assms
  by (auto simp: NewMongo_def WithTimeout_def cancel_def nth_append split: prod.splits sum.splits)

lemma example_context: "ctx example_storage = 0" "client example_storage = Client 0"
  by (simp_all add: example_storage_def)

text \<open>
  Claim C4 does not hold of the code. \<open>NewMongo\<close> keeps in the storage the context it
  made for the connection, and its deferred \<open>cancel()\<close> ends that context when
  \<open>NewMongo\<close> returns. Here \<open>NewMongo\<close> is called at time 1000 on the reference database:
  the context of the storage it returns carries the deadline of the connection
  (30 seconds after the call) and is already cancelled, and \<open>HealthCheck\<close> and \<open>InsertOne\<close>
  hand that very context to the driver.
\<close>

theorem NewMongo_keeps_cancelled_context:
  "NewMongo store_driver 1000 ''mongodb://localhost:27017'' ''app'' ([], empty_store)
     = (Inr example_storage,
        [\<lparr>ctx_deadline = Some 30000001000, ctx_err = Some Canceled\<rparr>], empty_store)
   \<and> ctx example_storage = 0
   \<and> HealthCheck (recording store_driver) example_storage (empty_store, [])
       = (None, empty_store, [ReqPing (Client 0) 0 Primary])
   \<and> snd (snd (InsertOne (recording store_driver) example_storage ''users'' ann (empty_store, [])))
       = [ReqInsertOne users 0 ann]"
proof -
  have a: "NewMongo store_driver 1000 ''mongodb://localhost:27017'' ''app'' ([], empty_store)
     = (Inr example_storage,
        [\<lparr>ctx_deadline = Some 30000001000, ctx_err = Some Canceled\<rparr>], empty_store)"
    by (simp add: NewMongo_def WithTimeout_def cancel_def store_sel store_Connect_def
          example_storage_def Second_def)
  have p: "Client_Ping store_driver (client example_storage) (ctx example_storage) Primary empty_store
      = (None, empty_store)"
    by (simp add: store_sel store_Ping_def)
  have b: "HealthCheck (recording store_driver) example_storage (empty_store, [])
       = (None, empty_store, [ReqPing (Client 0) 0 Primary])"
    using HealthCheck_calls [OF p, of "[]"] by (simp add: example_context)
  obtain r s' where i: "Collection_InsertOne store_driver
      (Collection (database example_storage) ''users'') (ctx example_storage) ann empty_store = (r, s')"
    by (cases "Collection_InsertOne store_driver
      (Collection (database example_storage) ''users'') (ctx example_storage) ann empty_store")
  have c: "snd (snd (InsertOne (recording store_driver) example_storage ''users'' ann (empty_store, [])))
       = [ReqInsertOne users 0 ann]"
    using InsertOne_calls [OF i, of "[]"] by (simp add: example_context example_collection)
  from a b c show ?thesis by (simp add: example_context)
qed

section \<open>\<open>FindMany\<close> and its cursor\<close>

lemma find_users:
  "Collection_Find store_driver (Collection (database example_storage) ''users'')
      (ctx example_storage) [] (fst (buildOptions example_runtime [])) users_store
     = (Inr (Cursor 0),
        users_store\<lparr>store_cursors := (store_cursors users_store)(0 := Some [ann, bob]),
                     store_next := 1\<rparr>)"
  by (simp add: store_sel store_Find_def example_collection users_docs matches_examples)
     (simp add: users_store_def empty_store_def)

text \<open>
  Claim C3 does not hold of the code. On the reference database, \<open>FindMany\<close> with a
  \<open>result\<close> that is no pointer to a slice opens a cursor, fails in \<open>All\<close> and returns the
  error; the calls it has made are \<open>Find\<close> and \<open>All\<close>, with no \<open>Close\<close>, and the cursor is
  still open afterwards. With a pointer to a slice the calls are \<open>Find\<close>, \<open>All\<close> and
  \<open>Close\<close>.
\<close>

theorem FindMany_failure_skips_Close:
  "fst (FindMany example_runtime (recording store_driver) example_storage ''users'' []
          NotAPointer [] (users_store, []))
     = Inl (DriverError ''results argument must be a pointer to a slice'')
   \<and> snd (snd (FindMany example_runtime (recording store_driver) example_storage ''users'' []
          NotAPointer [] (users_store, [])))
     = [ReqFind users 0 [] FindOptions_zero, ReqAll (Cursor 0) 0 NotAPointer]
   \<and> store_cursors (fst (snd (FindMany example_runtime (recording store_driver) example_storage
          ''users'' [] NotAPointer [] (users_store, [])))) 0 = Some [ann, bob]
   \<and> snd (snd (FindMany example_runtime (recording store_driver) example_storage ''users'' []
          PtrToSlice [] (users_store, [])))
     = [ReqFind users 0 [] FindOptions_zero, ReqAll (Cursor 0) 0 PtrToSlice, ReqClose (Cursor 0) 0]"
proof -
  let ?s1 = "users_store\<lparr>store_cursors := (store_cursors users_store)(0 := Some [ann, bob]),
                     store_next := 1\<rparr>"
  have a: "Cursor_All store_driver (Cursor 0) (ctx example_storage) NotAPointer ?s1
      = (Inl (DriverError ''results argument must be a pointer to a slice''), ?s1)"
    by (simp add: store_sel store_All_def)
  have b: "Cursor_All store_driver (Cursor 0) (ctx example_storage) PtrToSlice ?s1
      = (Inr (ASlice [ann, bob]), ?s1\<lparr>store_cursors := (store_cursors ?s1)(0 := None)\<rparr>)"
    by (simp add: store_sel store_All_def)
  obtain ce s3 where c: "Cursor_Close store_driver (Cursor 0) (ctx example_storage)
      (?s1\<lparr>store_cursors := (store_cursors ?s1)(0 := None)\<rparr>) = (ce, s3)"
    by (cases "Cursor_Close store_driver (Cursor 0) (ctx example_storage)
      (?s1\<lparr>store_cursors := (store_cursors ?s1)(0 := None)\<rparr>)")
  from FindMany_all_fails_calls [OF find_users a, of "[]"]
       FindMany_success_calls [OF find_users b c, of "[]"]
  show ?thesis
    by (simp add: example_context example_collection buildOptions_Nil)
qed

section \<open>Errors of the driver\<close>






end
